theory Spec2Isabelle
  imports Main "HOL-Library.Word" "HOL-Library.AList"
begin

section \<open>Strings, bytes and the external library\<close>

text \<open>
  A Python \<open>str\<close> is a sequence of Unicode code points; a code point is a natural
  number here, so that titles outside ASCII are covered. \<open>bytes\<close> are lists of
  8-bit words.
\<close>

type_synonym pystr = "nat list"
type_synonym bytes = "8 word list"

definition lit :: "string \<Rightarrow> pystr" where
  "lit s = map of_char s"

definition newline :: nat where
  "newline = 10"

text \<open>
  \<open>str.strip()\<close> with no argument removes the characters for which
  \<open>str.isspace\<close> holds from both ends.
\<close>

definition isspace :: "nat \<Rightarrow> bool" where
  "isspace c \<longleftrightarrow>
     c \<in> {9, 10, 11, 12, 13, 28, 29, 30, 31, 32, 133, 160, 5760,
          8232, 8233, 8239, 8287, 12288} \<or> (8192 \<le> c \<and> c \<le> 8202)"

definition strip :: "pystr \<Rightarrow> pystr" where
  "strip s = rev (dropWhile isspace (rev (dropWhile isspace s)))"

text \<open>
  The character class of \<^verbatim>\<open>re.sub(r'[\\/*?:"<>|]', "", s)\<close>: backslash, slash,
  star, question mark, colon, double quote, less, greater, bar.
\<close>

definition illegal_chars :: "nat list" where
  "illegal_chars = [92, 47, 42, 63, 58, 34, 60, 62, 124]"

definition re_sub_illegal :: "pystr \<Rightarrow> pystr" where
  "re_sub_illegal s = filter (\<lambda>c. c \<notin> set illegal_chars) s"

text \<open>\<^verbatim>\<open>sep.join(parts)\<close>.\<close>

fun join :: "pystr \<Rightarrow> pystr list \<Rightarrow> pystr" where
  "join sep [] = []"
| "join sep [p] = p"
| "join sep (p # q # ps) = p @ sep @ join sep (q # ps)"


text \<open>
  The format \<^verbatim>\<open>{idx:04d}\<close>: decimal digits, padded with zeros to width 4, the
  sign of a negative number counted in the width and written first.
\<close>

fun dec_digits :: "nat \<Rightarrow> pystr" where
  "dec_digits n = (if n < 10 then [48 + n] else dec_digits (n div 10) @ [48 + n mod 10])"

definition zfill :: "nat \<Rightarrow> pystr \<Rightarrow> pystr" where
  "zfill w ds = replicate (w - length ds) 48 @ ds"

definition format_04d :: "int \<Rightarrow> pystr" where
  "format_04d i =
     (if i < 0 then 45 # zfill 3 (dec_digits (nat (- i))) else zfill 4 (dec_digits (nat i)))"

text \<open>The file name \<^verbatim>\<open>f"{idx:04d}_{safe_title}.txt"\<close> of a chapter.\<close>

definition chapter_filename :: "int \<Rightarrow> pystr \<Rightarrow> pystr" where
  "chapter_filename idx safe_title = format_04d idx @ lit ''_'' @ safe_title @ lit ''.txt''"

text \<open>\<^verbatim>\<open>os.path.join(a, b)\<close> on POSIX, for two components.\<close>

definition path_join :: "pystr \<Rightarrow> pystr \<Rightarrow> pystr" where
  "path_join a b =
     (if b \<noteq> [] \<and> hd b = 47 then b
      else if a = [] \<or> last a = 47 then a @ b
      else a @ [47] @ b)"

text \<open>
  The file system holds text files by path. A write can fail: when the file is opened
  (nothing changes), or at the \<open>k\<close>-th write call after the file was truncated (the
  earlier chunks are in the file; \<open>k\<close> past the last chunk is a failure on close).
\<close>

type_synonym disk = "pystr \<rightharpoonup> pystr"

datatype io_fault = NoFault | OpenFails | WriteFails nat

definition write_file :: "disk \<Rightarrow> pystr \<Rightarrow> pystr list \<Rightarrow> io_fault \<Rightarrow> disk \<times> bool" where
  "write_file d path chunks fault =
     (case fault of
        NoFault \<Rightarrow> (d(path \<mapsto> concat chunks), True)
      | OpenFails \<Rightarrow> (d, False)
      | WriteFails k \<Rightarrow> (d(path \<mapsto> concat (take k chunks)), False))"

text \<open>
  The exceptions that the statements speak of: of \<open>os.makedirs\<close>; the storage error of
  the specification; and an exception of \<open>bytes.decode\<close> that the handlers for
  \<open>(UnicodeDecodeError, LookupError)\<close> do not catch.
\<close>

datatype exception = OSError | StorageError | DecodeException

text \<open>An entry of the index: the dict \<^verbatim>\<open>{"idx": .., "title": .., "file": ..}\<close>.\<close>

record index_entry =
  e_idx :: int
  e_title :: pystr
  e_file :: pystr

text \<open>
  A dict keeps its keys in insertion order and an assignment to a present key keeps
  the key's place: an association list under \<open>AList.update\<close>.
\<close>

type_synonym index = "(pystr \<times> index_entry) list"

datatype http_body = ReadError | Body bytes

datatype http_outcome = ConnectionError | Response nat http_body

text \<open>
  The outcomes of \<open>raw.decode(encoding)\<close>: the text, the two exceptions that the source
  catches, or any other exception (\<open>UnicodeError\<close> of the codec \<open>undefined\<close>,
  \<open>ValueError\<close> of a name with a null character, \<open>TypeError\<close> of a name that is not a
  string).
\<close>

datatype decode_result = Decoded pystr | UnicodeDecodeError | LookupError | OtherException

text \<open>
  What the program takes from libraries and from the network, as parameters:
  the outcome of the \<open>i\<close>-th GET of a url within one call of \<open>fetch\<close>, gzip, the
  codecs of \<open>bytes.decode\<close>, selector evaluation (parsel), \<open>urljoin\<close>, and JSON.
\<close>

record externals =
  http_get :: "pystr \<Rightarrow> nat \<Rightarrow> http_outcome"
  gzip_decompress :: "bytes \<Rightarrow> bytes option"
  bytes_decode :: "pystr \<Rightarrow> bytes \<Rightarrow> decode_result"
  decode_utf8_ignore :: "bytes \<Rightarrow> pystr"
  css_getall :: "pystr \<Rightarrow> pystr \<Rightarrow> pystr list"
  css_attribs :: "pystr \<Rightarrow> pystr \<Rightarrow> (pystr \<times> pystr) list list"
  urljoin :: "pystr \<Rightarrow> pystr \<Rightarrow> pystr"
  json_dumps :: "index \<Rightarrow> pystr"
  json_loads :: "pystr \<Rightarrow> index option"

section \<open>storage.py\<close>

record storage_handler =
  novel_name :: pystr
  author :: pystr
  base_dir :: pystr
  chapter_dir :: pystr
  index_path :: pystr
  downloaded_chapters :: index

datatype log_record = LogSaved int pystr | LogWriteFailed pystr

record storage_state =
  self :: storage_handler
  fs :: disk
  logged :: "log_record list"

definition StorageHandler_clean_str :: "pystr \<Rightarrow> pystr" where
  "StorageHandler_clean_str s = (if s = [] then lit ''Unknown'' else strip (re_sub_illegal s))"

text \<open>
  \<open>_load_index\<close>: the empty dict when the file does not exist, when opening or
  reading it raises (\<open>read_fails\<close>), and when its text is not JSON.
\<close>

definition StorageHandler_load_index :: "externals \<Rightarrow> disk \<Rightarrow> bool \<Rightarrow> pystr \<Rightarrow> index" where
  "StorageHandler_load_index x d read_fails path =
     (case d path of
        None \<Rightarrow> []
      | Some text \<Rightarrow>
          if read_fails then []
          else (case json_loads x text of None \<Rightarrow> [] | Some m \<Rightarrow> m))"

text \<open>\<open>__init__\<close>; \<open>os.makedirs\<close> is outside any \<open>try\<close>, so its failure propagates.\<close>

definition StorageHandler_init ::
  "externals \<Rightarrow> disk \<Rightarrow> bool \<Rightarrow> bool \<Rightarrow> pystr \<Rightarrow> pystr \<Rightarrow> exception + storage_handler" where
  "StorageHandler_init x d makedirs_fails read_fails name auth =
     (let novel = StorageHandler_clean_str name;
          au = StorageHandler_clean_str auth;
          base = path_join (lit ''downloads'') (lit ''['' @ au @ lit ''] '' @ novel);
          chapters = path_join base (lit ''chapters'')
      in if makedirs_fails then Inl OSError
         else let ipath = path_join base (lit ''index.json'')
              in Inr \<lparr>novel_name = novel, author = au, base_dir = base,
                      chapter_dir = chapters, index_path = ipath,
                      downloaded_chapters = StorageHandler_load_index x d read_fails ipath\<rparr>)"

text \<open>
  The paths of a handler as \<open>__init__\<close> sets them; no method changes them.
\<close>

definition constructed :: "storage_handler \<Rightarrow> bool" where
  "constructed h \<longleftrightarrow>
     chapter_dir h = path_join (base_dir h) (lit ''chapters'') \<and>
     index_path h = path_join (base_dir h) (lit ''index.json'')"

definition StorageHandler_is_downloaded :: "storage_handler \<Rightarrow> pystr \<Rightarrow> bool" where
  "StorageHandler_is_downloaded h chapter_url \<longleftrightarrow> chapter_url \<in> fst ` set (downloaded_chapters h)"

text \<open>
  \<open>save_chapter\<close>: everything is inside one \<open>try\<close> whose handler logs; the call
  returns \<open>None\<close> on every path. The result is paired with the state after the call.
\<close>

definition StorageHandler_save_chapter ::
  "externals \<Rightarrow> io_fault \<Rightarrow> io_fault \<Rightarrow> storage_state \<Rightarrow> int \<Rightarrow> pystr \<Rightarrow> pystr \<Rightarrow> pystr
     \<Rightarrow> (exception + unit) \<times> storage_state" where
  "StorageHandler_save_chapter x chapter_fault index_fault st idx title content url =
     (let safe_title = StorageHandler_clean_str title;
          filename = chapter_filename idx safe_title;
          filepath = path_join (chapter_dir (self st)) filename;
          (fs1, ok1) = write_file (fs st) filepath [title @ [newline, newline], content] chapter_fault
      in if \<not> ok1 then (Inr (), st\<lparr>fs := fs1, logged := logged st @ [LogWriteFailed title]\<rparr>)
         else
           let chapters = AList.update url \<lparr>e_idx = idx, e_title = safe_title, e_file = filename\<rparr>
                            (downloaded_chapters (self st));
               h = (self st)\<lparr>downloaded_chapters := chapters\<rparr>;
               (fs2, ok2) = write_file fs1 (index_path (self st)) [json_dumps x chapters] index_fault
           in if ok2 then (Inr (), \<lparr>self = h, fs = fs2, logged = logged st @ [LogSaved idx title]\<rparr>)
              else (Inr (), \<lparr>self = h, fs = fs2, logged = logged st @ [LogWriteFailed title]\<rparr>))"

section \<open>main.py\<close>

definition CONCURRENCY :: nat where
  "CONCURRENCY = 5"

definition RETRIES :: nat where
  "RETRIES = 3"

definition clean_filename :: "pystr \<Rightarrow> pystr" where
  "clean_filename filename = strip (re_sub_illegal filename)"

text \<open>
  What a run does besides writing files, in order: a GET, the sleep of one second
  after a failed attempt, the sleep of \<open>DELAY\<close> seconds at the end of a chapter, and
  an error record of the logger.
\<close>

datatype event = Get pystr | Backoff | PolitenessDelay | LogError pystr

subsection \<open>Decoding the body (the middle of \<open>fetch\<close>)\<close>

definition gzip_magic :: bytes where
  "gzip_magic = [0x1f, 0x8b]"

definition gunzip_if_magic :: "externals \<Rightarrow> bytes \<Rightarrow> bytes" where
  "gunzip_if_magic x raw =
     (if take 2 raw = gzip_magic
      then (case gzip_decompress x raw of Some unpacked \<Rightarrow> unpacked | None \<Rightarrow> raw)
      else raw)"

definition candidate_encodings :: "pystr list" where
  "candidate_encodings = [lit ''utf-8'', lit ''gb18030'', lit ''gbk'', lit ''gb2312'', lit ''big5'']"

text \<open>
  The \<open>for enc in (...)\<close> loop: the first encoding that decodes, or falling through;
  an exception that the handler does not catch leaves the loop.
\<close>

fun try_encodings :: "externals \<Rightarrow> bytes \<Rightarrow> pystr list \<Rightarrow> exception + pystr option" where
  "try_encodings x raw [] = Inr None"
| "try_encodings x raw (enc # encs) =
     (case bytes_decode x enc raw of
        Decoded text \<Rightarrow> Inr (Some text)
      | UnicodeDecodeError \<Rightarrow> try_encodings x raw encs
      | LookupError \<Rightarrow> try_encodings x raw encs
      | OtherException \<Rightarrow> Inl DecodeException)"

text \<open>
  Decoding the bytes: the hinted encoding first unless it is \<open>auto\<close>, then the loop, then
  \<open>raw.decode('utf-8', errors='ignore')\<close>, which does not raise. \<open>Inl\<close> is an exception
  that leaves this part of \<open>fetch\<close>.
\<close>

definition decode_text :: "externals \<Rightarrow> bytes \<Rightarrow> pystr \<Rightarrow> exception + pystr" where
  "decode_text x raw encoding =
     (case (if encoding \<noteq> lit ''auto''
            then (case bytes_decode x encoding raw of
                    Decoded text \<Rightarrow> Inr (Some text)
                  | UnicodeDecodeError \<Rightarrow> Inr None
                  | LookupError \<Rightarrow> Inr None
                  | OtherException \<Rightarrow> Inl DecodeException)
            else Inr None) of
        Inl e \<Rightarrow> Inl e
      | Inr (Some text) \<Rightarrow> Inr text
      | Inr None \<Rightarrow>
          (case try_encodings x raw candidate_encodings of
             Inl e \<Rightarrow> Inl e
           | Inr (Some text) \<Rightarrow> Inr text
           | Inr None \<Rightarrow> Inr (decode_utf8_ignore x raw)))"

definition decode :: "externals \<Rightarrow> bytes \<Rightarrow> pystr \<Rightarrow> exception + pystr" where
  "decode x raw encoding = decode_text x (gunzip_if_magic x raw) encoding"

subsection \<open>\<open>fetch\<close>\<close>

text \<open>
  The loop \<open>for i in range(RETRIES)\<close> over the attempts left. An exception of the
  request, of reading the body or of decoding it is caught by the outer handler,
  followed by the sleep, and the loop goes on; a response with another status, and a
  body that was decoded, return at once.
\<close>

fun fetch_attempts :: "externals \<Rightarrow> pystr \<Rightarrow> pystr \<Rightarrow> nat list \<Rightarrow> pystr option \<times> event list" where
  "fetch_attempts x url encoding [] = (None, [])"
| "fetch_attempts x url encoding (i # rest) =
     (case http_get x url i of
        ConnectionError \<Rightarrow>
          (let (r, evs) = fetch_attempts x url encoding rest in (r, Get url # Backoff # evs))
      | Response status body \<Rightarrow>
          if status = 200 then
            (case body of
               ReadError \<Rightarrow>
                 (let (r, evs) = fetch_attempts x url encoding rest in (r, Get url # Backoff # evs))
             | Body raw \<Rightarrow>
                 (case decode x raw encoding of
                    Inl e \<Rightarrow>
                      (let (r, evs) = fetch_attempts x url encoding rest
                       in (r, Get url # Backoff # evs))
                  | Inr text \<Rightarrow> (Some text, [Get url])))
          else (None, [Get url]))"

definition fetch :: "externals \<Rightarrow> pystr \<Rightarrow> pystr \<Rightarrow> pystr option \<times> event list" where
  "fetch x url encoding = fetch_attempts x url encoding [0..<RETRIES]"

subsection \<open>\<open>save_chapter\<close> and \<open>download_chapter\<close>\<close>

record world =
  files :: disk
  trace :: "event list"

definition save_chapter ::
  "io_fault \<Rightarrow> world \<Rightarrow> pystr \<Rightarrow> int \<Rightarrow> pystr \<Rightarrow> pystr \<Rightarrow> (exception + unit) \<times> world" where
  "save_chapter fault w novel_dir chapter_idx title content =
     (let filename = chapter_filename chapter_idx (clean_filename title);
          filepath = path_join novel_dir filename;
          (files1, ok) = write_file (files w) filepath [title @ [newline, newline], content] fault
      in if ok then (Inr (), w\<lparr>files := files1\<rparr>)
         else (Inr (), w\<lparr>files := files1, trace := trace w @ [LogError filename]\<rparr>))"

record rules =
  chapter_list :: pystr
  chapter_link_attr :: pystr
  chapter_title :: pystr
  chapter_content :: pystr

text \<open>\<open>sel.css(rules["chapter_title"]).get()\<close>: the first match, or \<open>None\<close>.\<close>

definition css_get :: "externals \<Rightarrow> pystr \<Rightarrow> pystr \<Rightarrow> pystr option" where
  "css_get x selector html = (case css_getall x selector html of [] \<Rightarrow> None | m # _ \<Rightarrow> Some m)"

text \<open>
  The body of \<open>download_chapter\<close> under the semaphore. Python's truth of a string:
  \<open>None\<close> and the empty string are false.
\<close>

definition truthy :: "pystr option \<Rightarrow> bool" where
  "truthy v \<longleftrightarrow> v \<noteq> None \<and> v \<noteq> Some []"

definition chapter_content_of :: "externals \<Rightarrow> rules \<Rightarrow> pystr \<Rightarrow> pystr" where
  "chapter_content_of x rs html =
     join [newline] (map strip (filter (\<lambda>line. strip line \<noteq> []) (css_getall x (chapter_content rs) html)))"

definition download_chapter ::
  "externals \<Rightarrow> io_fault \<Rightarrow> world \<Rightarrow> pystr \<Rightarrow> int \<Rightarrow> rules \<Rightarrow> pystr \<Rightarrow> pystr \<Rightarrow> world" where
  "download_chapter x fault w url idx rs encoding novel_dir =
     (let (html, evs) = fetch x url encoding;
          w1 = w\<lparr>trace := trace w @ evs\<rparr>
      in if \<not> truthy html then w1
         else
           let title = css_get x (chapter_title rs) (the html);
               content = chapter_content_of x rs (the html);
               w2 = (if truthy title \<and> content \<noteq> []
                     then snd (save_chapter fault w1 novel_dir idx (the title) content)
                     else w1)
           in w2\<lparr>trace := trace w2 @ [PolitenessDelay]\<rparr>)"

subsection \<open>The task loop of \<open>main\<close>\<close>




section \<open>The scheduling of the tasks\<close>









section \<open>Notions for the statements\<close>

text \<open>Every url of the in-memory index names a chapter file that exists on disk.\<close>

definition files_present :: "storage_state \<Rightarrow> bool" where
  "files_present st \<longleftrightarrow>
     (\<forall>(u, e) \<in> set (downloaded_chapters (self st)).
        fs st (path_join (chapter_dir (self st)) (e_file e)) \<noteq> None)"

text \<open>
  An attempt of \<open>fetch\<close> ends in the outer \<open>except\<close> branch when the request raises, or
  when the status is 200 and reading the body, or decoding it, raises.
\<close>

definition attempt_raises :: "externals \<Rightarrow> pystr \<Rightarrow> http_outcome \<Rightarrow> bool" where
  "attempt_raises x encoding out \<longleftrightarrow>
     (case out of
        ConnectionError \<Rightarrow> True
      | Response status body \<Rightarrow>
          status = 200 \<and>
          (case body of
             ReadError \<Rightarrow> True
           | Body raw \<Rightarrow> (case decode x raw encoding of Inl e \<Rightarrow> True | Inr text \<Rightarrow> False)))"

text \<open>The number of GETs in a trace.\<close>

fun gets :: "event list \<Rightarrow> nat" where
  "gets [] = 0"
| "gets (Get u # evs) = Suc (gets evs)"
| "gets (e # evs) = gets evs"










subsection \<open>The specification's decoder and extractor\<close>




text \<open>
  The content in the words of the specification, to be compared with
  \<open>chapter_content_of\<close>: every match is trimmed, the empty results are discarded, and
  the rest is joined by line breaks.
\<close>

definition content_spec :: "pystr list \<Rightarrow> pystr" where
  "content_spec blocks = join [newline] (filter (\<lambda>b. b \<noteq> []) (map strip blocks))"

section \<open>Example inputs\<close>

text \<open>
  Concrete inputs on which the theorems are evaluated: libraries and sites, a handler as
  \<open>__init__\<close> builds it for the novel \<open>n\<close> by \<open>a\<close>, disks, rules, and two runs of the
  scheduler (one task whose fetch fails; the first of two tasks saving its chapter).
\<close>

definition example_externals :: externals where
  "example_externals =
     \<lparr>http_get = (\<lambda>url i. ConnectionError),
      gzip_decompress = (\<lambda>raw. None),
      bytes_decode = (\<lambda>enc raw. UnicodeDecodeError),
      decode_utf8_ignore = (\<lambda>raw. []),
      css_getall = (\<lambda>selector html. []),
      css_attribs = (\<lambda>selector html. []),
      urljoin = (\<lambda>base href. base @ href),
      json_dumps = (\<lambda>m. concat (map fst m)),
      json_loads = (\<lambda>text. None)\<rparr>"

definition example_handler :: storage_handler where
  "example_handler =
     \<lparr>novel_name = lit ''n'', author = lit ''a'', base_dir = lit ''downloads/[a] n'',
      chapter_dir = lit ''downloads/[a] n/chapters'', index_path = lit ''downloads/[a] n/index.json'',
      downloaded_chapters = []\<rparr>"

definition example_state :: storage_state where
  "example_state = \<lparr>self = example_handler, fs = Map.empty, logged = []\<rparr>"



definition torn_state :: storage_state where
  "torn_state =
     snd (StorageHandler_save_chapter example_externals (WriteFails 0) NoFault
            (snd (StorageHandler_save_chapter example_externals NoFault NoFault example_state
                    1 (lit ''T'') (lit ''body'') (lit ''u'')))
            1 (lit ''T'') (lit ''body'') (lit ''u''))"

definition corrupt_disk :: disk where
  "corrupt_disk = [lit ''downloads/[a] n/index.json'' \<mapsto> lit ''{oops'']"

definition indexed_handler :: storage_handler where
  "indexed_handler =
     example_handler\<lparr>downloaded_chapters :=
       [(lit ''http://h/1'', \<lparr>e_idx = 1, e_title = lit ''Old'', e_file = lit ''0001_Old.txt''\<rparr>)]\<rparr>"

definition example_world :: world where
  "example_world = \<lparr>files = Map.empty, trace = []\<rparr>"

definition example_rules :: rules where
  "example_rules = \<lparr>chapter_list = lit ''a'', chapter_link_attr = lit ''href'',
                     chapter_title = lit ''h1'', chapter_content = lit ''p''\<rparr>"


definition non_authoritative_externals :: externals where
  "non_authoritative_externals =
     example_externals\<lparr>http_get := (\<lambda>url i. Response 203 (Body [0x6f, 0x6b])),
                       bytes_decode := (\<lambda>enc raw. Decoded (map unat raw))\<rparr>"

definition undefined_externals :: externals where
  "undefined_externals =
     example_externals\<lparr>http_get := (\<lambda>url i. Response 200 (Body [0x41, 0x42])),
                       bytes_decode := (\<lambda>enc raw. if enc = lit ''undefined'' then OtherException
                                                    else Decoded (map unat raw))\<rparr>"


definition flaky_externals :: externals where
  "flaky_externals =
     example_externals\<lparr>http_get := (\<lambda>url i. if i = 0 then ConnectionError
                                               else if i = 1 then Response 200 (Body [0x6f, 0x6b])
                                               else Response 404 (Body [])),
                       bytes_decode := (\<lambda>enc raw. Decoded (map unat raw))\<rparr>"


definition chapter_externals :: externals where
  "chapter_externals =
     example_externals
       \<lparr>http_get := (\<lambda>url i. Response 200 (Body [0x6f, 0x6b])),
        bytes_decode := (\<lambda>enc raw. Decoded (map unat raw)),
        css_getall := (\<lambda>selector html. if selector = lit ''h1'' then [lit '' New '', lit ''Other'']
                                         else [lit '' one '', lit ''  '', lit ''two''])\<rparr>"

definition blank_externals :: externals where
  "blank_externals =
     chapter_externals
       \<lparr>css_getall := (\<lambda>selector html. if selector = lit ''h1'' then [lit ''New''] else [lit ''  '', [9, 10]])\<rparr>"



section \<open>Properties\<close>

subsection \<open>Strings and paths\<close>





lemma last_path_join: "b \<noteq> [] \<Longrightarrow> last (path_join a b) = last b"
  by (simp add: path_join_def)

lemma chapter_path_neq_index_path:
  "path_join cdir (chapter_filename idx t) \<noteq> path_join base (lit ''index.json'')"
proof
  assume eq: "path_join cdir (chapter_filename idx t) = path_join base (lit ''index.json'')"
  have "last (path_join cdir (chapter_filename idx t)) = 116"
    by (simp add: last_path_join lit_def chapter_filename_def)
  moreover have "last (path_join base (lit ''index.json'')) = 110"
    by (simp add: last_path_join lit_def)
  ultimately show False using eq by simp
qed

subsection \<open>The cases of \<open>StorageHandler.save_chapter\<close>\<close>

lemma save_chapter_cases:
  "StorageHandler_save_chapter x cf xf st idx title content url =
     (let filename = chapter_filename idx (StorageHandler_clean_str title);
          filepath = path_join (chapter_dir (self st)) filename;
          text = title @ [newline, newline] @ content;
          chapters = AList.update url \<lparr>e_idx = idx, e_title = StorageHandler_clean_str title, e_file = filename\<rparr>
                            (downloaded_chapters (self st));
          h = (self st)\<lparr>downloaded_chapters := chapters\<rparr>
      in case cf of
           OpenFails \<Rightarrow> (Inr (), st\<lparr>logged := logged st @ [LogWriteFailed title]\<rparr>)
         | WriteFails k \<Rightarrow> (Inr (), st\<lparr>fs := (fs st)(filepath \<mapsto> concat (take k [title @ [newline, newline], content])),
                                        logged := logged st @ [LogWriteFailed title]\<rparr>)
         | NoFault \<Rightarrow>
            (case xf of
               NoFault \<Rightarrow> (Inr (), \<lparr>self = h, fs = (fs st)(filepath \<mapsto> text, index_path (self st) \<mapsto> json_dumps x chapters),
                                     logged = logged st @ [LogSaved idx title]\<rparr>)
             | OpenFails \<Rightarrow> (Inr (), \<lparr>self = h, fs = (fs st)(filepath \<mapsto> text),
                                     logged = logged st @ [LogWriteFailed title]\<rparr>)
             | WriteFails k \<Rightarrow> (Inr (), \<lparr>self = h, fs = (fs st)(filepath \<mapsto> text, index_path (self st) \<mapsto> concat (take k [json_dumps x chapters])),
                                     logged = logged st @ [LogWriteFailed title]\<rparr>)))"
  by (cases cf; cases xf; simp add: StorageHandler_save_chapter_def write_file_def Let_def)

lemma map_of_update_same: "map_of (AList.update k v al) k = Some v"
  by (simp add: update_conv')

lemma set_update_subset: "set (AList.update k v al) \<subseteq> insert (k, v) (set al)"
  by (induction al) auto

lemma save_chapter_chapter_fault:
  assumes "constructed (self st)" and "cf \<noteq> NoFault"
  shows "downloaded_chapters (self (snd (StorageHandler_save_chapter x cf xf st idx title content url)))
           = downloaded_chapters (self st)"
    and "fs (snd (StorageHandler_save_chapter x cf xf st idx title content url)) (index_path (self st))
           = fs st (index_path (self st))"
  using assms chapter_path_neq_index_path[of "path_join (base_dir (self st)) (lit ''chapters'')" idx "StorageHandler_clean_str title" "base_dir (self st)"]
  by (cases cf; simp add: save_chapter_cases Let_def constructed_def)+

lemma save_chapter_recorded:
  assumes "constructed (self st)"
  shows "map_of (downloaded_chapters (self (snd (StorageHandler_save_chapter x NoFault xf st idx title content url)))) url
           = Some \<lparr>e_idx = idx, e_title = StorageHandler_clean_str title,
                    e_file = chapter_filename idx (StorageHandler_clean_str title)\<rparr>"
    and "fs (snd (StorageHandler_save_chapter x NoFault xf st idx title content url))
            (path_join (chapter_dir (self st)) (chapter_filename idx (StorageHandler_clean_str title)))
           = Some (title @ [newline, newline] @ content)"
  using assms chapter_path_neq_index_path[of "path_join (base_dir (self st)) (lit ''chapters'')" idx "StorageHandler_clean_str title" "base_dir (self st)"]
  by (cases xf; simp add: save_chapter_cases Let_def constructed_def map_of_update_same)+

subsection \<open>The storage handler\<close>

lemma constructed_example: "constructed (self example_state)"
  by (simp add: constructed_def example_state_def example_handler_def path_join_def lit_def)

lemma init_example: "StorageHandler_init example_externals Map.empty False False (lit ''n'') (lit ''a'') = Inr example_handler"
  by (simp add: StorageHandler_init_def example_handler_def StorageHandler_clean_str_def path_join_def lit_def
     strip_def re_sub_illegal_def illegal_chars_def isspace_def StorageHandler_load_index_def Let_def)

lemma init_constructed:
  "StorageHandler_init x d makedirs_fails read_fails name auth = Inr h \<Longrightarrow> constructed h"
  by (auto simp: StorageHandler_init_def constructed_def Let_def split: if_splits)

lemma save_chapter_dirs:
  "chapter_dir (self (snd (StorageHandler_save_chapter x cf xf st idx title content url))) = chapter_dir (self st)"
  "index_path (self (snd (StorageHandler_save_chapter x cf xf st idx title content url))) = index_path (self st)"
  "base_dir (self (snd (StorageHandler_save_chapter x cf xf st idx title content url))) = base_dir (self st)"
  by (cases cf; cases xf; simp add: save_chapter_cases Let_def)+

lemma save_chapter_constructed:
  "constructed (self st) \<Longrightarrow>
     constructed (self (snd (StorageHandler_save_chapter x cf xf st idx title content url)))"
  by (simp add: constructed_def save_chapter_dirs)

subsection \<open>Write, then record\<close>

text \<open>
  C2, as the claim states it, fails in its last part: a url of the index need not
  correspond to a chapter file with that title and content. A chapter is saved; then it
  is saved again and the write fails after the file was opened, which truncated it. The
  url is still in the index, and its chapter file is empty.
\<close>

theorem resave_failure_truncates_indexed_file:
  "constructed (self example_state) \<and>
   map_of (downloaded_chapters (self torn_state)) (lit ''u'')
     = Some \<lparr>e_idx = 1, e_title = lit ''T'', e_file = lit ''0001_T.txt''\<rparr> \<and>
   StorageHandler_is_downloaded (self torn_state) (lit ''u'') \<and>
   fs torn_state (lit ''downloads/[a] n/chapters/0001_T.txt'') = Some [] \<and>
   fs torn_state (lit ''downloads/[a] n/chapters/0001_T.txt'')
     \<noteq> Some (lit ''T'' @ [newline, newline] @ lit ''body'')"
proof -
  have clean: "StorageHandler_clean_str (lit ''T'') = lit ''T''"
    by (simp add: StorageHandler_clean_str_def lit_def strip_def re_sub_illegal_def illegal_chars_def isspace_def)
  have name: "chapter_filename 1 (lit ''T'') = lit ''0001_T.txt''"
    by (simp add: chapter_filename_def format_04d_def zfill_def lit_def numeral_3_eq_3)
  have path: "path_join (lit ''downloads/[a] n/chapters'') (lit ''0001_T.txt'') = lit ''downloads/[a] n/chapters/0001_T.txt''"
    by (simp add: path_join_def lit_def)
  have dc: "downloaded_chapters (self torn_state)
              = [(lit ''u'', \<lparr>e_idx = 1, e_title = lit ''T'', e_file = lit ''0001_T.txt''\<rparr>)]"
    by (simp add: torn_state_def save_chapter_cases Let_def clean name example_state_def
        example_handler_def)
  have f: "fs torn_state (lit ''downloads/[a] n/chapters/0001_T.txt'') = Some []"
    by (simp add: torn_state_def save_chapter_cases Let_def clean name path example_state_def
        example_handler_def)
  have ne: "lit ''T'' @ [newline, newline] @ lit ''body'' \<noteq> []"
    by (simp add: lit_def)
  show ?thesis using constructed_example ne
    by (simp add: dc f StorageHandler_is_downloaded_def)
qed

text \<open>
  C2, amended. In every call of \<open>StorageHandler.save_chapter\<close> the index entry is inserted
  and the index file rewritten only after the chapter file was written: a failure of the
  chapter file's write leaves the in-memory index and the index file as they were; a call
  that changes either of them has written the chapter file with the title and the
  content; and at the end of a call whose chapter write succeeded, the url is in the
  index with the file that holds that title and content.
\<close>

theorem save_chapter_write_then_record:
  assumes c: "constructed (self st)"
    and run: "StorageHandler_save_chapter x chapter_fault index_fault st idx title content url = (r, st')"
  shows "(chapter_fault \<noteq> NoFault \<longrightarrow>
            downloaded_chapters (self st') = downloaded_chapters (self st) \<and>
            fs st' (index_path (self st)) = fs st (index_path (self st))) \<and>
         (downloaded_chapters (self st') \<noteq> downloaded_chapters (self st) \<or>
          fs st' (index_path (self st)) \<noteq> fs st (index_path (self st)) \<longrightarrow>
            fs st' (path_join (chapter_dir (self st)) (chapter_filename idx (StorageHandler_clean_str title)))
              = Some (title @ [newline, newline] @ content)) \<and>
         (chapter_fault = NoFault \<longrightarrow>
            map_of (downloaded_chapters (self st')) url
              = Some \<lparr>e_idx = idx, e_title = StorageHandler_clean_str title,
                       e_file = chapter_filename idx (StorageHandler_clean_str title)\<rparr> \<and>
            fs st' (path_join (chapter_dir (self st)) (chapter_filename idx (StorageHandler_clean_str title)))
              = Some (title @ [newline, newline] @ content))"
proof -
  have st': "st' = snd (StorageHandler_save_chapter x chapter_fault index_fault st idx title content url)"
    using run by simp
  have a: "chapter_fault \<noteq> NoFault \<longrightarrow>
            downloaded_chapters (self st') = downloaded_chapters (self st) \<and>
            fs st' (index_path (self st)) = fs st (index_path (self st))"
    unfolding st' using save_chapter_chapter_fault[OF c] by blast
  have b: "chapter_fault = NoFault \<longrightarrow>
            map_of (downloaded_chapters (self st')) url
              = Some \<lparr>e_idx = idx, e_title = StorageHandler_clean_str title,
                       e_file = chapter_filename idx (StorageHandler_clean_str title)\<rparr> \<and>
            fs st' (path_join (chapter_dir (self st)) (chapter_filename idx (StorageHandler_clean_str title)))
              = Some (title @ [newline, newline] @ content)"
    unfolding st' using save_chapter_recorded[OF c] by blast
  from a b show ?thesis by blast
qed

theorem save_chapter_write_then_record_witness:
  "constructed (self example_state) \<and>
   downloaded_chapters (self (snd (StorageHandler_save_chapter example_externals (WriteFails 1) NoFault
       example_state 1 (lit ''T'') (lit ''body'') (lit ''u'')))) = [] \<and>
   fs (snd (StorageHandler_save_chapter example_externals (WriteFails 1) NoFault
       example_state 1 (lit ''T'') (lit ''body'') (lit ''u''))) (lit ''downloads/[a] n/index.json'') = None \<and>
   map_of (downloaded_chapters (self (snd (StorageHandler_save_chapter example_externals NoFault NoFault
       example_state 1 (lit ''T'') (lit ''body'') (lit ''u''))))) (lit ''u'')
     = Some \<lparr>e_idx = 1, e_title = lit ''T'', e_file = lit ''0001_T.txt''\<rparr> \<and>
   fs (snd (StorageHandler_save_chapter example_externals NoFault NoFault
       example_state 1 (lit ''T'') (lit ''body'') (lit ''u''))) (lit ''downloads/[a] n/chapters/0001_T.txt'')
     = Some (lit ''T'' @ [newline, newline] @ lit ''body'')"
proof -
  have clean: "StorageHandler_clean_str (lit ''T'') = lit ''T''"
    by (simp add: StorageHandler_clean_str_def lit_def strip_def re_sub_illegal_def illegal_chars_def isspace_def)
  have name: "chapter_filename 1 (lit ''T'') = lit ''0001_T.txt''"
    by (simp add: chapter_filename_def format_04d_def zfill_def lit_def numeral_3_eq_3)
  have path: "path_join (chapter_dir (self example_state)) (lit ''0001_T.txt'') = lit ''downloads/[a] n/chapters/0001_T.txt''"
    by (simp add: example_state_def example_handler_def path_join_def lit_def)
  have ip: "index_path (self example_state) = lit ''downloads/[a] n/index.json''"
    by (simp add: example_state_def example_handler_def)
  have e: "downloaded_chapters (self example_state) = []" "fs example_state (lit ''downloads/[a] n/index.json'') = None"
    by (simp_all add: example_state_def example_handler_def)
  note w1 = save_chapter_write_then_record[where st = example_state and x = example_externals
      and chapter_fault = "WriteFails 1" and index_fault = NoFault and idx = 1 and title = "lit ''T''"
      and content = "lit ''body''" and url = "lit ''u''", OF constructed_example surjective_pairing]
  note w2 = save_chapter_write_then_record[where st = example_state and x = example_externals
      and chapter_fault = NoFault and index_fault = NoFault and idx = 1 and title = "lit ''T''"
      and content = "lit ''body''" and url = "lit ''u''", OF constructed_example surjective_pairing]
  show ?thesis using w1 w2 constructed_example by (simp add: clean name path ip e)
qed

subsection \<open>Saving twice\<close>

lemma update_twice: "AList.update k v (AList.update k v al) = AList.update k v al"
  by (induction al) auto

text \<open>
  Saving the same chapter twice, both saves completing, leaves the handler and the disk
  as the first save left them.
\<close>

theorem save_chapter_idempotent:
  "self (snd (StorageHandler_save_chapter x NoFault NoFault
            (snd (StorageHandler_save_chapter x NoFault NoFault st idx title content url))
            idx title content url))
     = self (snd (StorageHandler_save_chapter x NoFault NoFault st idx title content url)) \<and>
   fs (snd (StorageHandler_save_chapter x NoFault NoFault
            (snd (StorageHandler_save_chapter x NoFault NoFault st idx title content url))
            idx title content url))
     = fs (snd (StorageHandler_save_chapter x NoFault NoFault st idx title content url))"
  by (simp add: save_chapter_cases Let_def update_twice)

subsection \<open>Raw title in the file, sanitized title in the index\<close>











subsection \<open>Failures of a save are logged, not raised\<close>

lemma main_save_chapter_cases:
  "save_chapter fault w novel_dir chapter_idx title content =
     (let filename = chapter_filename chapter_idx (clean_filename title);
          filepath = path_join novel_dir filename
      in case fault of
           NoFault \<Rightarrow> (Inr (), w\<lparr>files := (files w)(filepath \<mapsto> title @ [newline, newline] @ content)\<rparr>)
         | OpenFails \<Rightarrow> (Inr (), w\<lparr>trace := trace w @ [LogError filename]\<rparr>)
         | WriteFails k \<Rightarrow>
             (Inr (), w\<lparr>files := (files w)(filepath \<mapsto> concat (take k [title @ [newline, newline], content])),
                         trace := trace w @ [LogError filename]\<rparr>))"
  by (cases fault; simp add: save_chapter_def write_file_def Let_def)

text \<open>
  C7, as the claim states it, fails: \<open>StorageHandler.save_chapter\<close> and
  \<open>save_chapter\<close> of \<open>main.py\<close> return normally when the chapter file cannot be
  opened and when the index file cannot be written; no \<open>StorageError\<close> reaches the
  caller.
\<close>

theorem save_chapter_failure_not_raised:
  "OpenFails \<noteq> NoFault \<and>
   fst (StorageHandler_save_chapter example_externals OpenFails NoFault example_state 1
          (lit ''T'') (lit ''body'') (lit ''u'')) \<noteq> Inl StorageError \<and>
   WriteFails 0 \<noteq> NoFault \<and>
   fst (StorageHandler_save_chapter example_externals NoFault (WriteFails 0) example_state 1
          (lit ''T'') (lit ''body'') (lit ''u'')) \<noteq> Inl StorageError \<and>
   fst (save_chapter OpenFails example_world (lit ''downloads/n'') 1 (lit ''T'') (lit ''body''))
      \<noteq> Inl StorageError"
  by (simp add: save_chapter_cases main_save_chapter_cases Let_def)

text \<open>
  C7, amended. Both \<open>save_chapter\<close> functions return normally on every path: a failure
  of the chapter-file write or of the index-file write is caught and logged as one error
  record, and the result of the call is the same as that of a completed save, which is
  logged as saved (\<open>StorageHandler\<close>) or leaves no record (\<open>main.py\<close>).
\<close>

theorem save_chapter_swallows_failures:
  "fst (StorageHandler_save_chapter x chapter_fault index_fault st idx title content url) = Inr () \<and>
   (chapter_fault \<noteq> NoFault \<or> index_fault \<noteq> NoFault \<longrightarrow>
      logged (snd (StorageHandler_save_chapter x chapter_fault index_fault st idx title content url))
        = logged st @ [LogWriteFailed title]) \<and>
   (chapter_fault = NoFault \<and> index_fault = NoFault \<longrightarrow>
      logged (snd (StorageHandler_save_chapter x chapter_fault index_fault st idx title content url))
        = logged st @ [LogSaved idx title]) \<and>
   fst (save_chapter fault w novel_dir idx title content) = Inr () \<and>
   (fault \<noteq> NoFault \<longrightarrow>
      trace (snd (save_chapter fault w novel_dir idx title content))
        = trace w @ [LogError (chapter_filename idx (clean_filename title))]) \<and>
   (fault = NoFault \<longrightarrow> trace (snd (save_chapter fault w novel_dir idx title content)) = trace w)"
  by (cases chapter_fault; cases index_fault; cases fault;
      simp add: save_chapter_cases main_save_chapter_cases Let_def)

theorem save_chapter_swallows_failures_witness:
  "OpenFails \<noteq> NoFault \<and>
   fst (StorageHandler_save_chapter example_externals OpenFails NoFault example_state 1
          (lit ''T'') (lit ''body'') (lit ''u'')) = Inr () \<and>
   logged (snd (StorageHandler_save_chapter example_externals OpenFails NoFault example_state 1
          (lit ''T'') (lit ''body'') (lit ''u''))) = [LogWriteFailed (lit ''T'')] \<and>
   logged (snd (StorageHandler_save_chapter example_externals NoFault NoFault example_state 1
          (lit ''T'') (lit ''body'') (lit ''u''))) = [LogSaved 1 (lit ''T'')] \<and>
   fst (save_chapter (WriteFails 1) example_world (lit ''downloads/n'') 1 (lit ''T'') (lit ''body'')) = Inr () \<and>
   trace (snd (save_chapter (WriteFails 1) example_world (lit ''downloads/n'') 1 (lit ''T'') (lit ''body'')))
     = [LogError (lit ''0001_T.txt'')] \<and>
   trace (snd (save_chapter NoFault example_world (lit ''downloads/n'') 1 (lit ''T'') (lit ''body''))) = []"
proof -
  have clean: "clean_filename (lit ''T'') = lit ''T''"
    by (simp add: clean_filename_def lit_def strip_def re_sub_illegal_def illegal_chars_def isspace_def)
  have name: "chapter_filename 1 (lit ''T'') = lit ''0001_T.txt''"
    by (simp add: chapter_filename_def format_04d_def zfill_def lit_def numeral_3_eq_3)
  have e: "logged example_state = []" "trace example_world = []"
    by (simp_all add: example_state_def example_world_def)
  note w1 = save_chapter_swallows_failures[where x = example_externals and chapter_fault = OpenFails
      and index_fault = NoFault and st = example_state and idx = 1 and title = "lit ''T''"
      and content = "lit ''body''" and url = "lit ''u''" and fault = "WriteFails 1"
      and w = example_world and novel_dir = "lit ''downloads/n''"]
  note w2 = save_chapter_swallows_failures[where x = example_externals and chapter_fault = NoFault
      and index_fault = NoFault and st = example_state and idx = 1 and title = "lit ''T''"
      and content = "lit ''body''" and url = "lit ''u''" and fault = NoFault
      and w = example_world and novel_dir = "lit ''downloads/n''"]
  show ?thesis using w1 w2 by (simp add: clean name e)
qed

subsection \<open>A missing or corrupt index loads as empty\<close>

text \<open>
  C10. When the directories can be made, constructing a \<open>StorageHandler\<close> returns a
  handler; and if \<open>index.json\<close> does not exist, or exists but reading it raises or its
  text is not JSON, the loaded index is empty and \<open>is_downloaded\<close> is false for every
  url.
\<close>

theorem load_index_failure_gives_empty:
  "\<exists>h. StorageHandler_init x d False read_fails name auth = Inr h \<and>
        ((case d (index_path h) of None \<Rightarrow> True
          | Some text \<Rightarrow> read_fails \<or> json_loads x text = None) \<longrightarrow>
           downloaded_chapters h = [] \<and> (\<forall>url. \<not> StorageHandler_is_downloaded h url))"
  by (auto simp: StorageHandler_init_def StorageHandler_load_index_def StorageHandler_is_downloaded_def
        Let_def split: option.splits)

theorem load_index_failure_gives_empty_witness:
  "\<exists>h. StorageHandler_init example_externals corrupt_disk False False (lit ''n'') (lit ''a'') = Inr h \<and>
        corrupt_disk (index_path h) = Some (lit ''{oops'') \<and>
        json_loads example_externals (lit ''{oops'') = None \<and>
        downloaded_chapters h = [] \<and> \<not> StorageHandler_is_downloaded h (lit ''u'')"
proof -
  from load_index_failure_gives_empty[of example_externals corrupt_disk False "lit ''n''" "lit ''a''"]
  obtain h where h: "StorageHandler_init example_externals corrupt_disk False False (lit ''n'') (lit ''a'') = Inr h"
    and imp: "(case corrupt_disk (index_path h) of None \<Rightarrow> True
          | Some text \<Rightarrow> False \<or> json_loads example_externals text = None) \<longrightarrow>
           downloaded_chapters h = [] \<and> (\<forall>url. \<not> StorageHandler_is_downloaded h url)"
    by blast
  have ip: "index_path h = lit ''downloads/[a] n/index.json''"
    using h by (auto simp: StorageHandler_init_def StorageHandler_clean_str_def path_join_def lit_def
     strip_def re_sub_illegal_def illegal_chars_def isspace_def Let_def)
  have d: "corrupt_disk (index_path h) = Some (lit ''{oops'')"
    by (simp add: ip corrupt_disk_def)
  have j: "json_loads example_externals (lit ''{oops'') = None"
    by (simp add: example_externals_def)
  from imp d j have "downloaded_chapters h = [] \<and> (\<forall>url. \<not> StorageHandler_is_downloaded h url)"
    by simp
  with h d j show ?thesis by blast
qed

subsection \<open>Decoding\<close>








subsection \<open>Fetching with retries\<close>

lemma fetch_attempts_raises:
  "attempt_raises x enc (http_get x url i) \<Longrightarrow>
     fetch_attempts x url enc (i # rest) =
       (fst (fetch_attempts x url enc rest), Get url # Backoff # snd (fetch_attempts x url enc rest))"
  by (auto simp: attempt_raises_def split: prod.splits http_outcome.splits http_body.splits sum.splits)

lemma fetch_attempts_skip:
  "m \<le> k \<Longrightarrow> k \<le> n \<Longrightarrow> (\<forall>i. m \<le> i \<and> i < k \<longrightarrow> attempt_raises x enc (http_get x url i)) \<Longrightarrow>
     fetch_attempts x url enc [m..<n] =
       (fst (fetch_attempts x url enc [k..<n]),
        concat (replicate (k - m) [Get url, Backoff]) @ snd (fetch_attempts x url enc [k..<n]))"
proof (induction "k - m" arbitrary: m)
  case 0
  then show ?case by simp
next
  case (Suc d)
  then have lt: "m < k" and mn: "m < n" by auto
  have r: "attempt_raises x enc (http_get x url m)" using Suc.prems lt by simp
  have ih: "fetch_attempts x url enc [Suc m..<n] =
       (fst (fetch_attempts x url enc [k..<n]),
        concat (replicate (k - Suc m) [Get url, Backoff]) @ snd (fetch_attempts x url enc [k..<n]))"
    using Suc.hyps(1)[of "Suc m"] Suc.hyps(2) Suc.prems lt by auto
  have km: "k - m = Suc (k - Suc m)" using lt by simp
  show ?case
    by (simp only: upt_conv_Cons[OF mn] fetch_attempts_raises[OF r] ih km) simp
qed

lemma fetch_attempts_None:
  "fst (fetch_attempts x url enc [m..<n]) = None \<Longrightarrow>
     (\<forall>i. m \<le> i \<and> i < n \<longrightarrow> attempt_raises x enc (http_get x url i)) \<or>
     (\<exists>k. m \<le> k \<and> k < n \<and> (\<forall>i. m \<le> i \<and> i < k \<longrightarrow> attempt_raises x enc (http_get x url i)) \<and>
          (\<exists>status body. http_get x url k = Response status body \<and> status \<noteq> 200))"
proof (induction "n - m" arbitrary: m)
  case 0
  then have "\<forall>i. m \<le> i \<and> i < n \<longrightarrow> attempt_raises x enc (http_get x url i)" by auto
  then show ?case by blast
next
  case (Suc d)
  then have mn: "m < n" by auto
  show ?case
  proof (cases "attempt_raises x enc (http_get x url m)")
    case True
    have "fst (fetch_attempts x url enc [Suc m..<n]) = None"
      using Suc.prems by (simp add: upt_conv_Cons[OF mn] fetch_attempts_raises[OF True] del: fetch_attempts.simps)
    then have "(\<forall>i. Suc m \<le> i \<and> i < n \<longrightarrow> attempt_raises x enc (http_get x url i)) \<or>
     (\<exists>k. Suc m \<le> k \<and> k < n \<and> (\<forall>i. Suc m \<le> i \<and> i < k \<longrightarrow> attempt_raises x enc (http_get x url i)) \<and>
          (\<exists>status body. http_get x url k = Response status body \<and> status \<noteq> 200))"
      using Suc.hyps(1)[of "Suc m"] Suc.hyps(2) by auto
    then show ?thesis
    proof
      assume a: "\<forall>i. Suc m \<le> i \<and> i < n \<longrightarrow> attempt_raises x enc (http_get x url i)"
      have "\<forall>i. m \<le> i \<and> i < n \<longrightarrow> attempt_raises x enc (http_get x url i)"
      proof (intro allI impI)
        fix i assume "m \<le> i \<and> i < n"
        then show "attempt_raises x enc (http_get x url i)" using a True by (cases "i = m") auto
      qed
      then show ?thesis by blast
    next
      assume "\<exists>k. Suc m \<le> k \<and> k < n \<and> (\<forall>i. Suc m \<le> i \<and> i < k \<longrightarrow> attempt_raises x enc (http_get x url i)) \<and>
          (\<exists>status body. http_get x url k = Response status body \<and> status \<noteq> 200)"
      then obtain k where k: "Suc m \<le> k" "k < n"
        "\<forall>i. Suc m \<le> i \<and> i < k \<longrightarrow> attempt_raises x enc (http_get x url i)"
        "\<exists>status body. http_get x url k = Response status body \<and> status \<noteq> 200" by blast
      have "\<forall>i. m \<le> i \<and> i < k \<longrightarrow> attempt_raises x enc (http_get x url i)"
      proof (intro allI impI)
        fix i assume "m \<le> i \<and> i < k"
        then show "attempt_raises x enc (http_get x url i)" using k(3) True by (cases "i = m") auto
      qed
      moreover have "m \<le> k" using k(1) by simp
      ultimately show ?thesis using k(2,4) by blast
    qed
  next
    case False
    then obtain status body where o: "http_get x url m = Response status body"
      by (cases "http_get x url m") (auto simp: attempt_raises_def)
    have "status \<noteq> 200"
    proof
      assume s: "status = 200"
      with False o obtain raw where b: "body = Body raw" by (cases body) (auto simp: attempt_raises_def)
      with False o s obtain t where "decode x raw enc = Inr t"
        by (cases "decode x raw enc") (auto simp: attempt_raises_def)
      with s o b Suc.prems show False by (simp add: upt_conv_Cons[OF mn])
    qed
    with o mn show ?thesis by auto
  qed
qed

lemma fetch_at_response:
  assumes k: "k < RETRIES" and r: "\<forall>i<k. attempt_raises x enc (http_get x url i)"
  shows "fetch x url enc =
           (fst (fetch_attempts x url enc [k..<RETRIES]),
            concat (replicate k [Get url, Backoff]) @ snd (fetch_attempts x url enc [k..<RETRIES]))"
  using fetch_attempts_skip[where m = 0 and k = k and n = RETRIES and x = x and url = url and enc = enc] k r by (simp add: fetch_def)

text \<open>
  C4, as the claim states it, fails: a response with status 203, a 2xx status, makes
  \<open>fetch\<close> return \<open>None\<close> after one GET instead of the decoded text.
\<close>

theorem fetch_other_2xx_returns_none:
  "http_get non_authoritative_externals (lit ''u'') 0 = Response 203 (Body [0x6f, 0x6b]) \<and>
   (200 :: nat) \<le> 203 \<and> (203 :: nat) < 300 \<and>
   decode non_authoritative_externals [0x6f, 0x6b] (lit ''auto'') = Inr [111, 107] \<and>
   fetch non_authoritative_externals (lit ''u'') (lit ''auto'') = (None, [Get (lit ''u'')]) \<and>
   fst (fetch non_authoritative_externals (lit ''u'') (lit ''auto'')) \<noteq> Some [111, 107]"
  by (simp add: fetch_def RETRIES_def upt_rec non_authoritative_externals_def example_externals_def
      decode_def decode_text_def gunzip_if_magic_def gzip_magic_def candidate_encodings_def)

text \<open>
  C4, amended. \<open>fetch\<close> makes at most \<open>RETRIES = 3\<close> attempts. An attempt that raises, in
  the request, in reading the body or in decoding it, is followed by the one-second sleep
  and the next attempt. The first attempt that does not raise ends the call: with a status
  other than 200 it returns \<open>None\<close>, with status 200 it returns the decoded text; no
  further GET follows. \<open>None\<close> is returned only when every attempt raised or an attempt got
  a status other than 200.
\<close>

theorem fetch_retry_contract:
  "RETRIES = 3 \<and>
   (k < RETRIES \<and> (\<forall>i<k. attempt_raises x enc (http_get x url i)) \<and>
    http_get x url k = Response status body \<and> status \<noteq> 200 \<longrightarrow>
      fetch x url enc = (None, concat (replicate k [Get url, Backoff]) @ [Get url])) \<and>
   (k < RETRIES \<and> (\<forall>i<k. attempt_raises x enc (http_get x url i)) \<and>
    http_get x url k = Response 200 (Body raw) \<and> decode x raw enc = Inr t \<longrightarrow>
      fetch x url enc = (Some t, concat (replicate k [Get url, Backoff]) @ [Get url])) \<and>
   ((\<forall>i<RETRIES. attempt_raises x enc (http_get x url i)) \<longrightarrow>
      fetch x url enc = (None, concat (replicate RETRIES [Get url, Backoff]))) \<and>
   (fst (fetch x url enc) = None \<longrightarrow>
      (\<forall>i<RETRIES. attempt_raises x enc (http_get x url i)) \<or>
      (\<exists>j<RETRIES. (\<forall>i<j. attempt_raises x enc (http_get x url i)) \<and>
         (\<exists>st b. http_get x url j = Response st b \<and> st \<noteq> 200)))"
proof -
  have a: "k < RETRIES \<and> (\<forall>i<k. attempt_raises x enc (http_get x url i)) \<and>
    http_get x url k = Response status body \<and> status \<noteq> 200 \<longrightarrow>
      fetch x url enc = (None, concat (replicate k [Get url, Backoff]) @ [Get url])"
  proof
    assume h: "k < RETRIES \<and> (\<forall>i<k. attempt_raises x enc (http_get x url i)) \<and>
      http_get x url k = Response status body \<and> status \<noteq> 200"
    then have "fetch_attempts x url enc [k..<RETRIES] = (None, [Get url])"
      by (simp add: upt_conv_Cons)
    then show "fetch x url enc = (None, concat (replicate k [Get url, Backoff]) @ [Get url])"
      using fetch_at_response[where k = k and x = x and url = url and enc = enc] h by simp
  qed
  have b: "k < RETRIES \<and> (\<forall>i<k. attempt_raises x enc (http_get x url i)) \<and>
    http_get x url k = Response 200 (Body raw) \<and> decode x raw enc = Inr t \<longrightarrow>
      fetch x url enc = (Some t, concat (replicate k [Get url, Backoff]) @ [Get url])"
  proof
    assume h: "k < RETRIES \<and> (\<forall>i<k. attempt_raises x enc (http_get x url i)) \<and>
      http_get x url k = Response 200 (Body raw) \<and> decode x raw enc = Inr t"
    then have "fetch_attempts x url enc [k..<RETRIES] = (Some t, [Get url])"
      by (simp add: upt_conv_Cons)
    then show "fetch x url enc = (Some t, concat (replicate k [Get url, Backoff]) @ [Get url])"
      using fetch_at_response[where k = k and x = x and url = url and enc = enc] h by simp
  qed
  have c: "(\<forall>i<RETRIES. attempt_raises x enc (http_get x url i)) \<longrightarrow>
      fetch x url enc = (None, concat (replicate RETRIES [Get url, Backoff]))"
    using fetch_attempts_skip[where m = 0 and k = RETRIES and n = RETRIES and x = x and url = url and enc = enc] by (simp add: fetch_def)
  have d: "fst (fetch x url enc) = None \<longrightarrow>
      (\<forall>i<RETRIES. attempt_raises x enc (http_get x url i)) \<or>
      (\<exists>j<RETRIES. (\<forall>i<j. attempt_raises x enc (http_get x url i)) \<and>
         (\<exists>st b. http_get x url j = Response st b \<and> st \<noteq> 200))"
    using fetch_attempts_None[where x = x and url = url and enc = enc and m = 0 and n = RETRIES] by (simp add: fetch_def)
  from a b c d show ?thesis by (simp add: RETRIES_def)
qed

theorem fetch_retry_contract_witness:
  "(1 :: nat) < RETRIES \<and>
   attempt_raises flaky_externals (lit ''auto'') (http_get flaky_externals (lit ''u'') 0) \<and>
   http_get flaky_externals (lit ''u'') 1 = Response 200 (Body [0x6f, 0x6b]) \<and>
   decode flaky_externals [0x6f, 0x6b] (lit ''auto'') = Inr [111, 107] \<and>
   fetch flaky_externals (lit ''u'') (lit ''auto'')
     = (Some [111, 107], [Get (lit ''u''), Backoff, Get (lit ''u'')]) \<and>
   http_get flaky_externals (lit ''u'') 2 = Response 404 (Body []) \<and>
   (0 :: nat) < RETRIES \<and>
   http_get non_authoritative_externals (lit ''u'') 0 = Response 203 (Body [0x6f, 0x6b]) \<and>
   fetch non_authoritative_externals (lit ''u'') (lit ''auto'') = (None, [Get (lit ''u'')]) \<and>
   attempt_raises undefined_externals (lit ''undefined'') (http_get undefined_externals (lit ''u'') 0) \<and>
   attempt_raises undefined_externals (lit ''undefined'') (http_get undefined_externals (lit ''u'') 1) \<and>
   attempt_raises undefined_externals (lit ''undefined'') (http_get undefined_externals (lit ''u'') 2) \<and>
   fetch undefined_externals (lit ''u'') (lit ''undefined'')
     = (None, [Get (lit ''u''), Backoff, Get (lit ''u''), Backoff, Get (lit ''u''), Backoff])"
proof -
  have d: "decode flaky_externals [0x6f, 0x6b] (lit ''auto'') = Inr [111, 107]"
    by (simp add: decode_def decode_text_def gunzip_if_magic_def gzip_magic_def candidate_encodings_def
        flaky_externals_def example_externals_def)
  have f: "attempt_raises flaky_externals (lit ''auto'') (http_get flaky_externals (lit ''u'') 0)"
    "http_get flaky_externals (lit ''u'') 1 = Response 200 (Body [0x6f, 0x6b])"
    "http_get flaky_externals (lit ''u'') 2 = Response 404 (Body [])"
    by (simp_all add: flaky_externals_def example_externals_def attempt_raises_def)
  have n: "http_get non_authoritative_externals (lit ''u'') 0 = Response 203 (Body [0x6f, 0x6b])"
    by (simp add: non_authoritative_externals_def example_externals_def)
  have u: "\<And>i. attempt_raises undefined_externals (lit ''undefined'') (http_get undefined_externals (lit ''u'') i)"
    by (simp add: attempt_raises_def decode_def decode_text_def gunzip_if_magic_def gzip_magic_def
        undefined_externals_def example_externals_def lit_def)
  have r: "(1 :: nat) < RETRIES" "(0 :: nat) < RETRIES" by (simp_all add: RETRIES_def)
  have f0: "\<forall>i<1. attempt_raises flaky_externals (lit ''auto'') (http_get flaky_externals (lit ''u'') i)"
    using f(1) by simp
  note w1 = fetch_retry_contract[where k = 1 and x = flaky_externals and url = "lit ''u''"
      and raw = "[0x6f, 0x6b]" and enc = "lit ''auto''" and t = "[111, 107]"]
  note w2 = fetch_retry_contract[where k = 0 and x = undefined_externals and url = "lit ''u''"
      and enc = "lit ''undefined''" and raw = "[]" and status = 0 and body = ReadError]
  note w3 = fetch_retry_contract[where k = 0 and x = non_authoritative_externals and url = "lit ''u''"
      and enc = "lit ''auto''" and status = 203 and body = "Body [0x6f, 0x6b]"]
  have a: "fetch flaky_externals (lit ''u'') (lit ''auto'')
     = (Some [111, 107], [Get (lit ''u''), Backoff, Get (lit ''u'')])"
    using w1 r f0 f(2) d by simp
  have b: "fetch undefined_externals (lit ''u'') (lit ''undefined'')
     = (None, [Get (lit ''u''), Backoff, Get (lit ''u''), Backoff, Get (lit ''u''), Backoff])"
    using w2 u by (simp add: RETRIES_def numeral_3_eq_3)
  have c: "fetch non_authoritative_externals (lit ''u'') (lit ''auto'') = (None, [Get (lit ''u'')])"
    using w3 r n by simp
  show ?thesis using a b c d f n u r by simp
qed

lemma fetch_attempts_gets:
  "gets (snd (fetch_attempts x url enc attempts)) \<le> length attempts \<and>
   (attempts \<noteq> [] \<longrightarrow> 1 \<le> gets (snd (fetch_attempts x url enc attempts)))"
  by (induction attempts) (auto split: http_outcome.splits http_body.splits prod.splits sum.splits)

text \<open>A call of \<open>fetch\<close> issues at least one GET and at most \<open>RETRIES\<close>.\<close>

theorem fetch_gets_bounded:
  "1 \<le> gets (snd (fetch x url enc)) \<and> gets (snd (fetch x url enc)) \<le> RETRIES"
  using fetch_attempts_gets[where x = x and url = url and enc = enc and attempts = "[0..<RETRIES]"] by (simp add: fetch_def RETRIES_def)

subsection \<open>Numbering the chapter tasks\<close>






subsection \<open>Extracting a chapter\<close>

lemma join_eq_Nil: "(\<forall>b \<in> set bs. b \<noteq> []) \<Longrightarrow> join sep bs = [] \<longleftrightarrow> bs = []"
  by (induction sep bs rule: join.induct) auto

lemma chapter_content_spec:
  "chapter_content_of x rs html = content_spec (css_getall x (chapter_content rs) html)"
  by (simp add: chapter_content_of_def content_spec_def filter_map comp_def)

lemma strip_blank: "(\<forall>c \<in> set l. isspace c) \<Longrightarrow> strip l = []"
proof -
  assume "\<forall>c \<in> set l. isspace c"
  then have d: "dropWhile isspace l = []" by simp
  show ?thesis unfolding strip_def d by simp
qed

lemma content_spec_blank:
  "(\<forall>l \<in> set blocks. \<forall>c \<in> set l. isspace c) \<Longrightarrow> content_spec blocks = []"
proof -
  assume "\<forall>l \<in> set blocks. \<forall>c \<in> set l. isspace c"
  then have "\<forall>l \<in> set blocks. strip l = []" using strip_blank by blast
  then have "filter (\<lambda>b. b \<noteq> []) (map strip blocks) = []" by (simp add: filter_empty_conv)
  then show ?thesis by (simp add: content_spec_def)
qed

lemma download_chapter_fetched:
  assumes "fetch x url enc = (Some html, evs)" and "html \<noteq> []"
  shows "download_chapter x fault w url idx rs enc dir =
     (let title = css_get x (chapter_title rs) html;
          content = chapter_content_of x rs html;
          w1 = w\<lparr>trace := trace w @ evs\<rparr>;
          w2 = (if truthy title \<and> content \<noteq> []
                then snd (save_chapter fault w1 dir idx (the title) content) else w1)
      in w2\<lparr>trace := trace w2 @ [PolitenessDelay]\<rparr>)"
  using assms by (simp add: download_chapter_def truthy_def Let_def)

lemma download_chapter_saved:
  assumes "fetch x url enc = (Some html, evs)" and "html \<noteq> []"
    and "css_get x (chapter_title rs) html = Some t" and "t \<noteq> []"
    and "chapter_content_of x rs html \<noteq> []"
  shows "files (download_chapter x NoFault w url idx rs enc dir) =
           (files w)(path_join dir (chapter_filename idx (clean_filename t))
                       \<mapsto> t @ [newline, newline] @ chapter_content_of x rs html)"
  using assms by (simp add: download_chapter_fetched main_save_chapter_cases truthy_def Let_def)

lemma download_chapter_not_saved:
  assumes "fetch x url enc = (Some html, evs)" and "html \<noteq> []"
    and "css_get x (chapter_title rs) html = None \<or> chapter_content_of x rs html = []"
  shows "download_chapter x fault w url idx rs enc dir =
           w\<lparr>trace := trace w @ evs @ [PolitenessDelay]\<rparr>"
  using assms by (auto simp: download_chapter_fetched truthy_def Let_def)

lemma fetch_chapter_externals:
  "fetch chapter_externals u (lit ''auto'') = (Some [111, 107], [Get u])"
  "fetch blank_externals u (lit ''auto'') = (Some [111, 107], [Get u])"
  by (simp_all add: fetch_def RETRIES_def upt_rec blank_externals_def chapter_externals_def example_externals_def
      decode_def gunzip_if_magic_def gzip_magic_def decode_text_def candidate_encodings_def)

lemma example_title_file:
  "path_join (lit ''downloads/n'') (chapter_filename 1 (clean_filename (lit '' New ''))) = lit ''downloads/n/0001_New.txt''"
  by (simp add: clean_filename_def chapter_filename_def format_04d_def zfill_def path_join_def lit_def
      strip_def re_sub_illegal_def illegal_chars_def isspace_def numeral_3_eq_3)

lemma example_content:
  "chapter_content_of chapter_externals example_rules [111, 107] = lit ''one'' @ [newline] @ lit ''two''"
  by (simp add: chapter_content_of_def chapter_externals_def example_externals_def example_rules_def
      lit_def strip_def isspace_def newline_def)

text \<open>
  C6. For a page that was fetched, the title is the first match of the title selector,
  taken as it is, and the content is the matches of the content selector, each trimmed,
  the empty ones dropped, joined by line breaks in their order. With a title and a
  non-empty content the chapter is written with exactly these; when the title is absent
  or the content is empty nothing is written, and in particular when every match of the
  content selector is whitespace only.
\<close>

theorem extraction_contract:
  assumes f: "fetch x url enc = (Some html, evs)" and ne: "html \<noteq> []"
  shows "css_get x (chapter_title rs) html
           = (case css_getall x (chapter_title rs) html of [] \<Rightarrow> None | m # _ \<Rightarrow> Some m) \<and>
         chapter_content_of x rs html = content_spec (css_getall x (chapter_content rs) html) \<and>
         (css_get x (chapter_title rs) html = Some t \<and> t \<noteq> [] \<and> chapter_content_of x rs html \<noteq> [] \<longrightarrow>
            files (download_chapter x NoFault w url idx rs enc dir)
              = (files w)(path_join dir (chapter_filename idx (clean_filename t))
                            \<mapsto> t @ [newline, newline] @ chapter_content_of x rs html)) \<and>
         (css_get x (chapter_title rs) html = None \<or> chapter_content_of x rs html = [] \<longrightarrow>
            files (download_chapter x fault w url idx rs enc dir) = files w) \<and>
         ((\<forall>l \<in> set (css_getall x (chapter_content rs) html). \<forall>c \<in> set l. isspace c) \<longrightarrow>
            chapter_content_of x rs html = [] \<and>
            files (download_chapter x fault w url idx rs enc dir) = files w)"
proof -
  have a: "css_get x (chapter_title rs) html = Some t \<and> t \<noteq> [] \<and> chapter_content_of x rs html \<noteq> [] \<longrightarrow>
            files (download_chapter x NoFault w url idx rs enc dir)
              = (files w)(path_join dir (chapter_filename idx (clean_filename t))
                            \<mapsto> t @ [newline, newline] @ chapter_content_of x rs html)"
    using download_chapter_saved[OF f ne] by blast
  have b: "css_get x (chapter_title rs) html = None \<or> chapter_content_of x rs html = [] \<longrightarrow>
            files (download_chapter x fault w url idx rs enc dir) = files w"
    using download_chapter_not_saved[OF f ne, of rs fault w idx dir] by simp
  have c: "(\<forall>l \<in> set (css_getall x (chapter_content rs) html). \<forall>c \<in> set l. isspace c) \<longrightarrow>
            chapter_content_of x rs html = []"
    using content_spec_blank[of "css_getall x (chapter_content rs) html"]
    by (simp add: chapter_content_spec)
  from a b c show ?thesis by (simp add: css_get_def chapter_content_spec)
qed

theorem extraction_contract_witness:
  "fetch chapter_externals (lit ''http://h/1'') (lit ''auto'') = (Some [111, 107], [Get (lit ''http://h/1'')]) \<and>
   css_get chapter_externals (chapter_title example_rules) [111, 107] = Some (lit '' New '') \<and>
   chapter_content_of chapter_externals example_rules [111, 107] = lit ''one'' @ [newline] @ lit ''two'' \<and>
   files (download_chapter chapter_externals NoFault example_world (lit ''http://h/1'') 1 example_rules
            (lit ''auto'') (lit ''downloads/n''))
     = [lit ''downloads/n/0001_New.txt'' \<mapsto> lit '' New '' @ [newline, newline] @ lit ''one'' @ [newline] @ lit ''two''] \<and>
   fetch blank_externals (lit ''http://h/1'') (lit ''auto'') = (Some [111, 107], [Get (lit ''http://h/1'')]) \<and>
   css_getall blank_externals (chapter_content example_rules) [111, 107] = [lit ''  '', [9, 10]] \<and>
   chapter_content_of blank_externals example_rules [111, 107] = [] \<and>
   files (download_chapter blank_externals NoFault example_world (lit ''http://h/1'') 1 example_rules
            (lit ''auto'') (lit ''downloads/n'')) = Map.empty"
proof -
  have t: "css_get chapter_externals (chapter_title example_rules) [111, 107] = Some (lit '' New '')"
    by (simp add: css_get_def chapter_externals_def example_externals_def example_rules_def)
  have tn: "lit '' New '' \<noteq> []" "lit ''one'' @ [newline] @ lit ''two'' \<noteq> []" "[111, 107 :: nat] \<noteq> []"
    by (simp_all add: lit_def)
  have g: "css_getall blank_externals (chapter_content example_rules) [111, 107] = [lit ''  '', [9, 10]]"
    by (simp add: blank_externals_def chapter_externals_def example_externals_def example_rules_def lit_def)
  have sp: "\<forall>l \<in> set [lit ''  '', [9, 10]]. \<forall>c \<in> set l. isspace c"
    by (simp add: lit_def isspace_def)
  have fw: "files example_world = Map.empty" by (simp add: example_world_def)
  note w1 = extraction_contract[OF fetch_chapter_externals(1)[of "lit ''http://h/1''"] tn(3),
      where rs = example_rules and t = "lit '' New ''" and w = example_world and idx = 1
      and dir = "lit ''downloads/n''"]
  note w2 = extraction_contract[OF fetch_chapter_externals(2)[of "lit ''http://h/1''"] tn(3),
      where rs = example_rules and fault = NoFault and w = example_world and idx = 1
      and dir = "lit ''downloads/n''"]
  have a: "files (download_chapter chapter_externals NoFault example_world (lit ''http://h/1'') 1 example_rules
            (lit ''auto'') (lit ''downloads/n''))
     = [lit ''downloads/n/0001_New.txt'' \<mapsto> lit '' New '' @ [newline, newline] @ lit ''one'' @ [newline] @ lit ''two'']"
    using w1 t tn by (simp add: example_content example_title_file fw)
  have b: "chapter_content_of blank_externals example_rules [111, 107] = [] \<and>
        files (download_chapter blank_externals NoFault example_world (lit ''http://h/1'') 1 example_rules
            (lit ''auto'') (lit ''downloads/n'')) = Map.empty"
  proof -
    have pre: "\<forall>l \<in> set (css_getall blank_externals (chapter_content example_rules) [111, 107]).
                 \<forall>c \<in> set l. isspace c"
      unfolding g by (rule sp)
    from w2[where t = "[]"] have "(\<forall>l \<in> set (css_getall blank_externals (chapter_content example_rules) [111, 107]).
                 \<forall>c \<in> set l. isspace c) \<longrightarrow>
        chapter_content_of blank_externals example_rules [111, 107] = [] \<and>
        files (download_chapter blank_externals NoFault example_world (lit ''http://h/1'') 1 example_rules
            (lit ''auto'') (lit ''downloads/n'')) = files example_world"
      by blast
    with pre show ?thesis unfolding fw by blast
  qed
  show ?thesis using a b t g fetch_chapter_externals[of "lit ''http://h/1''"] example_content by simp
qed

subsection \<open>Resuming\<close>

text \<open>
  C1 does not hold of the code: \<open>download_chapter\<close> never consults the index. For a url
  that is a key of the index, so that \<open>is_downloaded\<close> is true, it issues the GET all the
  same, extracts the page and writes the chapter file again.
\<close>

theorem download_chapter_refetches_indexed_url:
  "StorageHandler_is_downloaded indexed_handler (lit ''http://h/1'') \<and>
   trace (download_chapter chapter_externals NoFault example_world (lit ''http://h/1'') 1 example_rules
            (lit ''auto'') (lit ''downloads/n''))
     = [Get (lit ''http://h/1''), PolitenessDelay] \<and>
   files (download_chapter chapter_externals NoFault example_world (lit ''http://h/1'') 1 example_rules
            (lit ''auto'') (lit ''downloads/n'')) (lit ''downloads/n/0001_New.txt'')
     = Some (lit '' New '' @ [newline, newline] @ lit ''one'' @ [newline] @ lit ''two'')"
proof -
  have i: "StorageHandler_is_downloaded indexed_handler (lit ''http://h/1'')"
    by (simp add: StorageHandler_is_downloaded_def indexed_handler_def example_handler_def)
  have t: "css_get chapter_externals (chapter_title example_rules) [111, 107] = Some (lit '' New '')"
    by (simp add: css_get_def chapter_externals_def example_externals_def example_rules_def)
  have tn: "lit '' New '' \<noteq> []" "lit ''one'' @ [newline] @ lit ''two'' \<noteq> []" "[111, 107 :: nat] \<noteq> []"
    by (simp_all add: lit_def)
  have d: "download_chapter chapter_externals NoFault example_world (lit ''http://h/1'') 1 example_rules
            (lit ''auto'') (lit ''downloads/n'')
       = \<lparr>files = [lit ''downloads/n/0001_New.txt'' \<mapsto> lit '' New '' @ [newline, newline] @ lit ''one'' @ [newline] @ lit ''two''],
          trace = [Get (lit ''http://h/1''), PolitenessDelay]\<rparr>"
    using example_title_file tn
    by (simp add: download_chapter_fetched[OF fetch_chapter_externals(1)] t example_content
        main_save_chapter_cases truthy_def example_world_def Let_def)
  show ?thesis using i by (simp add: d)
qed

subsection \<open>Bounded concurrency\<close>






















end
